theory Spec2Isabelle
  imports Main "HOL-Library.Sublist"
begin

section \<open>Python values and exceptions\<close>

text \<open>
  The values that flow through \<open>src/components/data_validation.py\<close> without a static
  type: the schema configuration read from YAML, the dictionary produced by the report's
  \<open>dump_dict()\<close>, and the cells of a data frame. A dictionary is an association list
  (keys are strings; the first binding of a key is the one looked up).
\<close>

datatype pyfloat = Float int int | PosInf | NegInf | NaN

datatype pyval =
    PNone
  | PBool bool
  | PInt int
  | PFloat pyfloat
  | PStr string
  | PList "pyval list"
  | PDict "(string \<times> pyval) list"

text \<open>
  Exceptions. \<open>Failure\<close> is any exception raised inside a collaborator (pandas, the
  report library, the YAML writer); \<open>CustomerException e\<close> is the wrapper of
  \<open>src.exception\<close> around the exception \<open>e\<close> it was raised from.
\<close>

datatype exn =
    KeyError string
  | TypeError
  | AttributeError
  | Failure string
  | CustomerException exn

text \<open>\<open>bool(x)\<close>\<close>

fun py_bool :: "pyval \<Rightarrow> bool" where
  "py_bool PNone = False"
| "py_bool (PBool b) = b"
| "py_bool (PInt i) = (i \<noteq> 0)"
| "py_bool (PFloat (Float m e)) = (m \<noteq> 0)"
| "py_bool (PFloat PosInf) = True"
| "py_bool (PFloat NegInf) = True"
| "py_bool (PFloat NaN) = True"
| "py_bool (PStr s) = (s \<noteq> [])"
| "py_bool (PList xs) = (xs \<noteq> [])"
| "py_bool (PDict kvs) = (kvs \<noteq> [])"

text \<open>\<open>x.get(k, d)\<close>: only a dictionary has the method.\<close>

fun py_get :: "pyval \<Rightarrow> string \<Rightarrow> pyval \<Rightarrow> exn + pyval" where
  "py_get (PDict kvs) k d = Inr (case map_of kvs k of None \<Rightarrow> d | Some v \<Rightarrow> v)"
| "py_get PNone k d = Inl AttributeError"
| "py_get (PBool b) k d = Inl AttributeError"
| "py_get (PInt i) k d = Inl AttributeError"
| "py_get (PFloat f) k d = Inl AttributeError"
| "py_get (PStr s) k d = Inl AttributeError"
| "py_get (PList xs) k d = Inl AttributeError"

text \<open>\<open>x[k]\<close> with a string key \<open>k\<close>.\<close>

fun py_getitem :: "pyval \<Rightarrow> string \<Rightarrow> exn + pyval" where
  "py_getitem (PDict kvs) k = (case map_of kvs k of None \<Rightarrow> Inl (KeyError k) | Some v \<Rightarrow> Inr v)"
| "py_getitem PNone k = Inl TypeError"
| "py_getitem (PBool b) k = Inl TypeError"
| "py_getitem (PInt i) k = Inl TypeError"
| "py_getitem (PFloat f) k = Inl TypeError"
| "py_getitem (PStr s) k = Inl TypeError"
| "py_getitem (PList xs) k = Inl TypeError"

text \<open>\<open>len(x)\<close>\<close>

fun py_len :: "pyval \<Rightarrow> exn + nat" where
  "py_len (PList xs) = Inr (length xs)"
| "py_len (PDict kvs) = Inr (length (remdups (map fst kvs)))"
| "py_len (PStr s) = Inr (length s)"
| "py_len PNone = Inl TypeError"
| "py_len (PBool b) = Inl TypeError"
| "py_len (PInt i) = Inl TypeError"
| "py_len (PFloat f) = Inl TypeError"

text \<open>\<open>k in s\<close> on two strings is the substring test.\<close>

fun starts_with :: "string \<Rightarrow> string \<Rightarrow> bool" where
  "starts_with [] s = True"
| "starts_with (x # xs) [] = False"
| "starts_with (x # xs) (y # ys) = (x = y \<and> starts_with xs ys)"

fun str_contains :: "string \<Rightarrow> string \<Rightarrow> bool" where
  "str_contains k [] = (k = [])"
| "str_contains k (c # cs) = (starts_with k (c # cs) \<or> str_contains k cs)"

text \<open>\<open>k in x\<close> for a string \<open>k\<close>.\<close>

fun py_in :: "string \<Rightarrow> pyval \<Rightarrow> exn + bool" where
  "py_in k (PDict kvs) = Inr (k \<in> set (map fst kvs))"
| "py_in k (PList xs) = Inr (PStr k \<in> set xs)"
| "py_in k (PStr s) = Inr (str_contains k s)"
| "py_in k PNone = Inl TypeError"
| "py_in k (PBool b) = Inl TypeError"
| "py_in k (PInt i) = Inl TypeError"
| "py_in k (PFloat f) = Inl TypeError"

text \<open>The elements a \<open>for\<close> loop over \<open>x\<close> visits.\<close>

fun py_iter :: "pyval \<Rightarrow> exn + pyval list" where
  "py_iter (PList xs) = Inr xs"
| "py_iter (PDict kvs) = Inr (map PStr (remdups (map fst kvs)))"
| "py_iter (PStr s) = Inr (map (\<lambda>c. PStr [c]) s)"
| "py_iter PNone = Inl TypeError"
| "py_iter (PBool b) = Inl TypeError"
| "py_iter (PInt i) = Inl TypeError"
| "py_iter (PFloat f) = Inl TypeError"

section \<open>Data frames, entities and collaborators\<close>

text \<open>A data frame is its ordered sequence of named columns.\<close>

type_synonym dataframe = "(string \<times> pyval list) list"

definition columns :: "dataframe \<Rightarrow> string list" where
  "columns df = map fst df"

text \<open>
  The entity classes are declared in \<open>src/entity\<close>; the records carry the fields this
  module reads and writes. The two fields of the configuration that share their name
  with a field of the validation artifact carry the suffix \<open>_cfg\<close>.
\<close>

record DataIngestionArtifact =
  trained_file_path :: string
  test_file_path :: string

record DataValidationConfig =
  drift_report_file_path_cfg :: string
  invalid_train_file_path_cfg :: string
  invalid_test_file_path_cfg :: string

record DataValidationArtifact =
  validation_status :: bool
  valid_train_file_path :: string
  valid_test_file_path :: string
  invalid_train_file_path :: string
  invalid_test_file_path :: string
  drift_report_file_path :: string

text \<open>
  The object \<open>report.run(...)\<close> returns is used twice: it is printed, and its
  \<open>dump_dict()\<close> is called. It is represented by what \<open>dump_dict()\<close> gives.
\<close>

datatype snapshot = Snapshot (dump_dict: "exn + pyval")

text \<open>
  The collaborators the module calls and does not define: \<open>pd.read_csv\<close>,
  \<open>Report([DataDriftPreset()]).run\<close> (called with the current frame first),
  \<open>write_yaml_file\<close> and \<open>MainUtils().read_schema_config_file\<close>. Each is a parameter
  of the model and either returns or raises.
\<close>

record env =
  pd_read_csv :: "string \<Rightarrow> exn + dataframe"
  report_run :: "dataframe \<Rightarrow> dataframe \<Rightarrow> exn + snapshot"
  yaml_writer :: "string \<Rightarrow> pyval \<Rightarrow> exn + unit"
  schema_reader :: "exn + pyval"

text \<open>The attributes \<open>__init__\<close> sets on \<open>self\<close>.\<close>

record DataValidation =
  data_ingestion_artifact :: DataIngestionArtifact
  data_validation_config :: DataValidationConfig
  schema_config :: pyval

section \<open>Effects\<close>

text \<open>
  Every call that reaches outside the module is recorded, in the order the calls are
  made: a log record (the format string and the values interpolated into it), a read of
  a CSV file, a run of the report, the print of its result, a write of a YAML file, a
  read of the schema file. A call is recorded when it is made, whether or not it then
  raises.
\<close>

datatype event =
    LogInfo string "pyval list"
  | ReadCsv string
  | RunReport dataframe dataframe
  | Print snapshot
  | WriteYaml string pyval
  | ReadSchema

text \<open>A computation yields the calls it made and either an exception or a value.\<close>

type_synonym 'a io = "event list \<times> (exn + 'a)"

definition io_return :: "'a \<Rightarrow> 'a io" where
  "io_return x = ([], Inr x)"

definition io_bind :: "'a io \<Rightarrow> ('a \<Rightarrow> 'b io) \<Rightarrow> 'b io" where
  "io_bind m f =
     (case m of
        (t, Inl e) \<Rightarrow> (t, Inl e)
      | (t, Inr x) \<Rightarrow> (case f x of (t', r) \<Rightarrow> (t @ t', r)))"

text \<open>An expression of the module itself: no call is recorded.\<close>

definition io_pure :: "exn + 'a \<Rightarrow> 'a io" where
  "io_pure r = ([], r)"

text \<open>A call to a collaborator: the call is recorded, then it returns or raises.\<close>

definition io_call :: "event \<Rightarrow> exn + 'a \<Rightarrow> 'a io" where
  "io_call ev r = ([ev], r)"

text \<open>\<open>try: ... except Exception as e: raise CustomerException(e, sys)\<close>\<close>

definition io_wrap :: "'a io \<Rightarrow> 'a io" where
  "io_wrap m =
     (case m of
        (t, Inl e) \<Rightarrow> (t, Inl (CustomerException e))
      | (t, Inr x) \<Rightarrow> (t, Inr x))"

definition logging_info :: "string \<Rightarrow> pyval list \<Rightarrow> unit io" where
  "logging_info fmt args = io_call (LogInfo fmt args) (Inr ())"

definition write_yaml_file :: "env \<Rightarrow> string \<Rightarrow> pyval \<Rightarrow> unit io" where
  "write_yaml_file E path content = io_call (WriteYaml path content) (yaml_writer E path content)"

section \<open>The class \<open>DataValidation\<close>\<close>

definition DataValidation_init ::
  "env \<Rightarrow> DataIngestionArtifact \<Rightarrow> DataValidationConfig \<Rightarrow> DataValidation io" where
  "DataValidation_init E ingestion config =
     io_bind (io_call ReadSchema (schema_reader E)) (\<lambda>schema.
     io_return \<lparr> data_ingestion_artifact = ingestion,
                 data_validation_config = config,
                 schema_config = schema \<rparr>)"

text \<open>\<open>len(self._schema_config["columns"])\<close>\<close>

definition expected_column_count :: "DataValidation \<Rightarrow> exn + nat" where
  "expected_column_count self =
     (case py_getitem (schema_config self) ''columns'' of
        Inl e \<Rightarrow> Inl e
      | Inr cols \<Rightarrow> py_len cols)"

definition validate_schema_columns :: "DataValidation \<Rightarrow> dataframe \<Rightarrow> bool io" where
  "validate_schema_columns self dataframe =
     io_wrap (
       io_bind (io_pure (expected_column_count self)) (\<lambda>n.
       let status = (length (columns dataframe) = n) in
       io_bind (logging_info ''Is required column present[{}]'' [PBool status]) (\<lambda>_.
       io_return status)))"

definition validate_dataset_schema_columns ::
  "DataValidation \<Rightarrow> dataframe \<Rightarrow> dataframe \<Rightarrow> (bool \<times> bool) io" where
  "validate_dataset_schema_columns self train_set test_set =
     io_bind (logging_info ''Entered validate_dataset_schema_columns method of Data_Validation class'' []) (\<lambda>_.
     io_wrap (
       io_bind (logging_info ''Validating dataset schema columns'' []) (\<lambda>_.
       io_bind (validate_schema_columns self train_set) (\<lambda>train_schema_status.
       io_bind (logging_info ''Validated dataset schema columns on the train set'' []) (\<lambda>_.
       io_bind (validate_schema_columns self test_set) (\<lambda>test_schema_status.
       io_bind (logging_info ''Validated dataset schema columns on the test set'' []) (\<lambda>_.
       io_bind (logging_info ''Validated dataset schema columns'' []) (\<lambda>_.
       io_return (train_schema_status, test_schema_status)))))))))"

text \<open>
  The loop over the metrics of the report: the first entry whose \<open>result\<close> has one of the
  two keys sets \<open>(drift_status, n_features, n_drifted)\<close> and ends the loop; with no such
  entry the three keep their initial values \<open>(False, None, None)\<close>.
\<close>

definition read_summary :: "pyval \<Rightarrow> exn + (bool \<times> pyval \<times> pyval)" where
  "read_summary res =
     (case py_get res ''dataset_drift'' (PBool False) of
        Inl e \<Rightarrow> Inl e
      | Inr d \<Rightarrow>
          (case py_get res ''number_of_columns'' PNone of
             Inl e \<Rightarrow> Inl e
           | Inr n_features \<Rightarrow>
               (case py_get res ''number_of_drifted_columns'' PNone of
                  Inl e \<Rightarrow> Inl e
                | Inr n_drifted \<Rightarrow> Inr (py_bool d, n_features, n_drifted))))"

fun scan_metrics :: "pyval list \<Rightarrow> exn + (bool \<times> pyval \<times> pyval)" where
  "scan_metrics [] = Inr (False, PNone, PNone)"
| "scan_metrics (m # ms) =
     (case py_get m ''result'' (PDict []) of
        Inl e \<Rightarrow> Inl e
      | Inr res \<Rightarrow>
          (case py_in ''dataset_drift'' res of
             Inl e \<Rightarrow> Inl e
           | Inr True \<Rightarrow> read_summary res
           | Inr False \<Rightarrow>
               (case py_in ''number_of_drifted_columns'' res of
                  Inl e \<Rightarrow> Inl e
                | Inr True \<Rightarrow> read_summary res
                | Inr False \<Rightarrow> scan_metrics ms)))"

definition detect_dataset_drift ::
  "env \<Rightarrow> DataValidation \<Rightarrow> dataframe \<Rightarrow> dataframe \<Rightarrow> bool io" where
  "detect_dataset_drift E self reference_df current_df =
     io_wrap (
       io_bind (io_call (RunReport current_df reference_df)
                  (report_run E current_df reference_df)) (\<lambda>evaluation.
       io_bind (io_call (Print evaluation) (Inr ())) (\<lambda>_.
       io_bind (io_pure (dump_dict evaluation)) (\<lambda>report_dict.
       io_bind (write_yaml_file E
                  (drift_report_file_path_cfg (data_validation_config self)) report_dict) (\<lambda>_.
       io_bind (io_pure (py_get report_dict ''metrics'' (PList []))) (\<lambda>metrics.
       io_bind (io_pure (py_get report_dict ''metrics'' (PList []))) (\<lambda>metrics'.
       io_bind (io_pure (py_iter metrics')) (\<lambda>ms.
       io_bind (io_pure (scan_metrics ms)) (\<lambda>(drift_status, n_features, n_drifted).
       io_bind (if n_features \<noteq> PNone \<and> n_drifted \<noteq> PNone
                then logging_info ''{}/{} drift detected.'' [n_drifted, n_features]
                else io_return ()) (\<lambda>_.
       io_return drift_status))))))))))"

definition read_data :: "env \<Rightarrow> string \<Rightarrow> dataframe io" where
  "read_data E file_path = io_wrap (io_call (ReadCsv file_path) (pd_read_csv E file_path))"

definition initiate_data_validation :: "env \<Rightarrow> DataValidation \<Rightarrow> DataValidationArtifact io" where
  "initiate_data_validation E self =
     io_bind (logging_info ''Entered initiate_data_validation method of Data_Validation class'' []) (\<lambda>_.
     io_wrap (
       io_bind (logging_info ''Initiated data validation for the dataset'' []) (\<lambda>_.
       io_bind (read_data E (trained_file_path (data_ingestion_artifact self))) (\<lambda>train_df.
       io_bind (read_data E (test_file_path (data_ingestion_artifact self))) (\<lambda>test_df.
       io_bind (detect_dataset_drift E self train_df test_df) (\<lambda>drift.
       io_bind (validate_dataset_schema_columns self train_df test_df)
         (\<lambda>(schema_train_col_status, schema_test_col_status).
       io_bind (logging_info ''Schema train cols status is {} and schema test cols status is {}''
                  [PBool schema_train_col_status, PBool schema_test_col_status]) (\<lambda>_.
       let validation_status =
             (schema_train_col_status = True
              \<and> schema_test_col_status = True
              \<and> drift = False) in
       io_return
         \<lparr> validation_status = validation_status,
           valid_train_file_path = trained_file_path (data_ingestion_artifact self),
           valid_test_file_path = test_file_path (data_ingestion_artifact self),
           invalid_train_file_path = invalid_train_file_path_cfg (data_validation_config self),
           invalid_test_file_path = invalid_test_file_path_cfg (data_validation_config self),
           drift_report_file_path = drift_report_file_path_cfg (data_validation_config self) \<rparr>
       ))))))))"

section \<open>Observations on a run\<close>

text \<open>The reports handed to the YAML writer, with their paths, in the order of the calls.\<close>

fun reports_written :: "event list \<Rightarrow> (string \<times> pyval) list" where
  "reports_written [] = []"
| "reports_written (WriteYaml p r # t) = (p, r) # reports_written t"
| "reports_written (LogInfo fmt args # t) = reports_written t"
| "reports_written (ReadCsv p # t) = reports_written t"
| "reports_written (RunReport cur ref # t) = reports_written t"
| "reports_written (Print s # t) = reports_written t"
| "reports_written (ReadSchema # t) = reports_written t"





section \<open>Concrete inputs\<close>

text \<open>A schema of two columns, a frame that has them and a frame with a third column.\<close>

definition example_schema :: pyval where
  "example_schema =
     PDict [(''columns'', PList [PDict [(''ID'', PStr ''int'')],
                                 PDict [(''Income'', PStr ''float'')]])]"

definition example_frame :: "bool \<Rightarrow> dataframe" where
  "example_frame ok =
     (if ok then [(''ID'', [PInt 1, PInt 2]), (''Income'', [PInt 10, PInt 20])]
      else [(''ID'', [PInt 1, PInt 2]), (''Income'', [PInt 10, PInt 20]),
            (''Age'', [PInt 30, PInt 40])])"



text \<open>A report whose only metric carries the summary, with the drift flag \<open>d\<close>.\<close>

definition example_report :: "bool \<Rightarrow> pyval" where
  "example_report d =
     PDict [(''metrics'', PList [PDict [(''result'',
        PDict [(''dataset_drift'', PBool d),
               (''number_of_columns'', PInt 2),
               (''number_of_drifted_columns'', PInt (if d then 2 else 0))])]])]"



text \<open>
  Collaborators: \<open>train.csv\<close> and \<open>test.csv\<close> hold the two given frames and no other
  file exists; the report library answers \<open>outcome\<close> on every pair of frames; the
  writer succeeds.
\<close>

definition example_env :: "dataframe \<Rightarrow> dataframe \<Rightarrow> exn + pyval \<Rightarrow> env" where
  "example_env train_df test_df outcome =
     \<lparr> pd_read_csv = (\<lambda>p. if p = ''train.csv'' then Inr train_df
                          else if p = ''test.csv'' then Inr test_df
                          else Inl (Failure ''FileNotFoundError'')),
       report_run = (\<lambda>cur ref.
          case outcome of Inl e \<Rightarrow> Inl e | Inr report \<Rightarrow> Inr (Snapshot (Inr report))),
       yaml_writer = (\<lambda>p c. Inr ()),
       schema_reader = Inr example_schema \<rparr>"

definition example_self_at :: "string \<Rightarrow> string \<Rightarrow> DataValidation" where
  "example_self_at train_path test_path =
     \<lparr> data_ingestion_artifact =
         \<lparr> trained_file_path = train_path, test_file_path = test_path \<rparr>,
       data_validation_config =
         \<lparr> drift_report_file_path_cfg = ''report.yaml'',
           invalid_train_file_path_cfg = ''invalid/train.csv'',
           invalid_test_file_path_cfg = ''invalid/test.csv'' \<rparr>,
       schema_config = example_schema \<rparr>"

definition example_self :: DataValidation where
  "example_self = example_self_at ''train.csv'' ''test.csv''"

text \<open>
  The run in which the train frame has the schema's column count iff \<open>a\<close>, the test
  frame iff \<open>b\<close>, and the report says drift iff \<open>d\<close>.
\<close>

definition example_run :: "bool \<Rightarrow> bool \<Rightarrow> bool \<Rightarrow> DataValidationArtifact io" where
  "example_run a b d =
     initiate_data_validation
       (example_env (example_frame a) (example_frame b) (Inr (example_report d))) example_self"

section \<open>Basic facts\<close>

lemma snd_io_bind:
  "snd (io_bind m f) = (case snd m of Inl e \<Rightarrow> Inl e | Inr x \<Rightarrow> snd (f x))"
  by (cases m) (auto simp: io_bind_def split: sum.splits prod.splits)

lemma fst_io_bind:
  "fst (io_bind m f) = (case snd m of Inl e \<Rightarrow> fst m | Inr x \<Rightarrow> fst m @ fst (f x))"
  by (cases m) (auto simp: io_bind_def split: sum.splits prod.splits)

lemma snd_io_wrap:
  "snd (io_wrap m) = (case snd m of Inl e \<Rightarrow> Inl (CustomerException e) | Inr x \<Rightarrow> Inr x)"
  by (cases m) (auto simp: io_wrap_def split: sum.splits)

lemma fst_io_wrap: "fst (io_wrap m) = fst m"
  by (cases m) (auto simp: io_wrap_def split: sum.splits)

lemmas io_simps =
  snd_io_bind fst_io_bind snd_io_wrap fst_io_wrap
  io_return_def io_pure_def io_call_def logging_info_def write_yaml_file_def

lemma reports_written_append:
  "reports_written (xs @ ys) = reports_written xs @ reports_written ys"
  by (induction xs rule: reports_written.induct) simp_all


subsection \<open>What each method returns\<close>

lemma DataValidation_init_result:
  "snd (DataValidation_init E ingestion config) =
     (case schema_reader E of
        Inl e \<Rightarrow> Inl e
      | Inr schema \<Rightarrow>
          Inr \<lparr> data_ingestion_artifact = ingestion, data_validation_config = config,
                 schema_config = schema \<rparr>)"
  by (simp add: DataValidation_init_def io_simps split: sum.splits)

lemma read_data_result:
  "snd (read_data E p) =
     (case pd_read_csv E p of Inl e \<Rightarrow> Inl (CustomerException e) | Inr df \<Rightarrow> Inr df)"
  by (simp add: read_data_def io_simps)

lemma validate_schema_columns_result:
  "snd (validate_schema_columns self df) =
     (case expected_column_count self of
        Inl e \<Rightarrow> Inl (CustomerException e)
      | Inr n \<Rightarrow> Inr (length (columns df) = n))"
  by (simp add: validate_schema_columns_def io_simps Let_def split: sum.splits)

lemma validate_dataset_schema_columns_result:
  "snd (validate_dataset_schema_columns self train_set test_set) =
     (case snd (validate_schema_columns self train_set) of
        Inl e \<Rightarrow> Inl (CustomerException e)
      | Inr a \<Rightarrow>
          (case snd (validate_schema_columns self test_set) of
             Inl e \<Rightarrow> Inl (CustomerException e)
           | Inr b \<Rightarrow> Inr (a, b)))"
  by (simp add: validate_dataset_schema_columns_def io_simps split: sum.splits)

lemma detect_dataset_drift_result:
  "snd (detect_dataset_drift E self reference_df current_df) =
     (case report_run E current_df reference_df of
        Inl e \<Rightarrow> Inl (CustomerException e)
      | Inr evaluation \<Rightarrow>
     (case dump_dict evaluation of
        Inl e \<Rightarrow> Inl (CustomerException e)
      | Inr report_dict \<Rightarrow>
     (case yaml_writer E (drift_report_file_path_cfg (data_validation_config self)) report_dict of
        Inl e \<Rightarrow> Inl (CustomerException e)
      | Inr u \<Rightarrow>
     (case py_get report_dict ''metrics'' (PList []) of
        Inl e \<Rightarrow> Inl (CustomerException e)
      | Inr metrics \<Rightarrow>
     (case py_iter metrics of
        Inl e \<Rightarrow> Inl (CustomerException e)
      | Inr ms \<Rightarrow>
     (case scan_metrics ms of
        Inl e \<Rightarrow> Inl (CustomerException e)
      | Inr s \<Rightarrow> Inr (fst s)))))))"
  by (simp add: detect_dataset_drift_def io_simps split: sum.splits prod.splits)

lemma initiate_data_validation_result:
  "snd (initiate_data_validation E self) =
     (case pd_read_csv E (trained_file_path (data_ingestion_artifact self)) of
        Inl e \<Rightarrow> Inl (CustomerException (CustomerException e))
      | Inr train_df \<Rightarrow>
     (case pd_read_csv E (test_file_path (data_ingestion_artifact self)) of
        Inl e \<Rightarrow> Inl (CustomerException (CustomerException e))
      | Inr test_df \<Rightarrow>
     (case snd (detect_dataset_drift E self train_df test_df) of
        Inl e \<Rightarrow> Inl (CustomerException e)
      | Inr drift \<Rightarrow>
     (case snd (validate_dataset_schema_columns self train_df test_df) of
        Inl e \<Rightarrow> Inl (CustomerException e)
      | Inr s \<Rightarrow>
          Inr \<lparr> validation_status = (fst s \<and> snd s \<and> \<not> drift),
                 valid_train_file_path = trained_file_path (data_ingestion_artifact self),
                 valid_test_file_path = test_file_path (data_ingestion_artifact self),
                 invalid_train_file_path = invalid_train_file_path_cfg (data_validation_config self),
                 invalid_test_file_path = invalid_test_file_path_cfg (data_validation_config self),
                 drift_report_file_path = drift_report_file_path_cfg (data_validation_config self) \<rparr>))))"
  by (simp add: initiate_data_validation_def io_simps read_data_result Let_def
      split: sum.splits prod.splits)

subsection \<open>The calls each method makes\<close>

lemma read_data_calls: "fst (read_data E p) = [ReadCsv p]"
  by (simp add: read_data_def io_simps)

lemma validate_schema_columns_calls:
  "fst (validate_schema_columns self df) =
     (case expected_column_count self of
        Inl e \<Rightarrow> []
      | Inr n \<Rightarrow> [LogInfo ''Is required column present[{}]'' [PBool (length (columns df) = n)]])"
  by (simp add: validate_schema_columns_def io_simps Let_def split: sum.splits)

lemma validate_dataset_schema_columns_calls:
  "fst (validate_dataset_schema_columns self train_set test_set) =
     [LogInfo ''Entered validate_dataset_schema_columns method of Data_Validation class'' [],
      LogInfo ''Validating dataset schema columns'' []]
     @ fst (validate_schema_columns self train_set)
     @ (case snd (validate_schema_columns self train_set) of
          Inl e \<Rightarrow> []
        | Inr a \<Rightarrow>
            LogInfo ''Validated dataset schema columns on the train set'' []
            # fst (validate_schema_columns self test_set)
            @ (case snd (validate_schema_columns self test_set) of
                 Inl e \<Rightarrow> []
               | Inr b \<Rightarrow>
                   [LogInfo ''Validated dataset schema columns on the test set'' [],
                    LogInfo ''Validated dataset schema columns'' []]))"
  by (simp add: validate_dataset_schema_columns_def io_simps split: sum.splits)

lemma detect_dataset_drift_calls:
  "fst (detect_dataset_drift E self reference_df current_df) =
     RunReport current_df reference_df #
     (case report_run E current_df reference_df of
        Inl e \<Rightarrow> []
      | Inr evaluation \<Rightarrow>
          Print evaluation #
          (case dump_dict evaluation of
             Inl e \<Rightarrow> []
           | Inr report_dict \<Rightarrow>
               WriteYaml (drift_report_file_path_cfg (data_validation_config self)) report_dict #
               (case yaml_writer E (drift_report_file_path_cfg (data_validation_config self))
                       report_dict of
                  Inl e \<Rightarrow> []
                | Inr u \<Rightarrow>
               (case py_get report_dict ''metrics'' (PList []) of
                  Inl e \<Rightarrow> []
                | Inr metrics \<Rightarrow>
               (case py_iter metrics of
                  Inl e \<Rightarrow> []
                | Inr ms \<Rightarrow>
               (case scan_metrics ms of
                  Inl e \<Rightarrow> []
                | Inr s \<Rightarrow>
                    (if fst (snd s) \<noteq> PNone \<and> snd (snd s) \<noteq> PNone
                     then [LogInfo ''{}/{} drift detected.'' [snd (snd s), fst (snd s)]]
                     else [])))))))"
  by (simp add: detect_dataset_drift_def io_simps split: sum.splits prod.splits)

lemma initiate_data_validation_calls:
  "fst (initiate_data_validation E self) =
     [LogInfo ''Entered initiate_data_validation method of Data_Validation class'' [],
      LogInfo ''Initiated data validation for the dataset'' [],
      ReadCsv (trained_file_path (data_ingestion_artifact self))]
     @ (case pd_read_csv E (trained_file_path (data_ingestion_artifact self)) of
          Inl e \<Rightarrow> []
        | Inr train_df \<Rightarrow>
            ReadCsv (test_file_path (data_ingestion_artifact self)) #
            (case pd_read_csv E (test_file_path (data_ingestion_artifact self)) of
               Inl e \<Rightarrow> []
             | Inr test_df \<Rightarrow>
                 fst (detect_dataset_drift E self train_df test_df)
                 @ (case snd (detect_dataset_drift E self train_df test_df) of
                      Inl e \<Rightarrow> []
                    | Inr drift \<Rightarrow>
                        fst (validate_dataset_schema_columns self train_df test_df)
                        @ (case snd (validate_dataset_schema_columns self train_df test_df) of
                             Inl e \<Rightarrow> []
                           | Inr s \<Rightarrow>
                               [LogInfo ''Schema train cols status is {} and schema test cols status is {}''
                                  [PBool (fst s), PBool (snd s)]]))))"
  by (simp add: initiate_data_validation_def io_simps read_data_result read_data_calls Let_def
      split: sum.splits prod.splits)

subsection \<open>Reports written and phases of each method\<close>

lemma detect_dataset_drift_reports:
  "reports_written (fst (detect_dataset_drift E self reference_df current_df)) =
     (case report_run E current_df reference_df of
        Inl e \<Rightarrow> []
      | Inr evaluation \<Rightarrow>
          (case dump_dict evaluation of
             Inl e \<Rightarrow> []
           | Inr report_dict \<Rightarrow>
               [(drift_report_file_path_cfg (data_validation_config self), report_dict)]))"
  by (simp add: detect_dataset_drift_calls split: sum.splits)

lemma validate_dataset_schema_columns_reports:
  "reports_written (fst (validate_dataset_schema_columns self train_set test_set)) = []"
  by (simp add: validate_dataset_schema_columns_calls validate_schema_columns_calls
      reports_written_append split: sum.splits)

lemma initiate_data_validation_reports:
  "reports_written (fst (initiate_data_validation E self)) =
     (case pd_read_csv E (trained_file_path (data_ingestion_artifact self)) of
        Inl e \<Rightarrow> []
      | Inr train_df \<Rightarrow>
          (case pd_read_csv E (test_file_path (data_ingestion_artifact self)) of
             Inl e \<Rightarrow> []
           | Inr test_df \<Rightarrow> reports_written (fst (detect_dataset_drift E self train_df test_df))))"
  by (simp add: initiate_data_validation_calls reports_written_append
      validate_dataset_schema_columns_reports split: sum.splits)




subsection \<open>The loop over the metrics\<close>


subsection \<open>The concrete inputs evaluated\<close>

lemma example_expected_column_count: "expected_column_count (example_self_at p q) = Inr 2"
  by (simp add: expected_column_count_def example_self_at_def example_schema_def)

lemma example_read_train:
  "pd_read_csv (example_env tr te outcome) ''train.csv'' = Inr tr"
  by (simp add: example_env_def)

lemma example_read_test:
  "pd_read_csv (example_env tr te outcome) ''test.csv'' = Inr te"
  by (simp add: example_env_def)

lemma example_validate:
  "snd (validate_schema_columns example_self (example_frame ok)) = Inr ok"
  by (simp add: validate_schema_columns_result example_expected_column_count example_self_def
      example_frame_def columns_def)

lemma example_detect:
  "snd (detect_dataset_drift (example_env tr te (Inr (example_report d))) example_self ref cur)
     = Inr d"
  by (simp add: detect_dataset_drift_result example_env_def example_report_def read_summary_def)

lemma example_self_fields:
  "trained_file_path (data_ingestion_artifact example_self) = ''train.csv''"
  "test_file_path (data_ingestion_artifact example_self) = ''test.csv''"
  "drift_report_file_path_cfg (data_validation_config example_self) = ''report.yaml''"
  "invalid_train_file_path_cfg (data_validation_config example_self) = ''invalid/train.csv''"
  "invalid_test_file_path_cfg (data_validation_config example_self) = ''invalid/test.csv''"
  "schema_config example_self = example_schema"
  by (simp_all add: example_self_def example_self_at_def)

lemma example_run_result:
  "snd (example_run a b d) =
     Inr \<lparr> validation_status = (a \<and> b \<and> \<not> d),
            valid_train_file_path = ''train.csv'', valid_test_file_path = ''test.csv'',
            invalid_train_file_path = ''invalid/train.csv'',
            invalid_test_file_path = ''invalid/test.csv'',
            drift_report_file_path = ''report.yaml'' \<rparr>"
  by (simp add: example_run_def initiate_data_validation_result example_self_fields
      example_read_train example_read_test example_detect
      validate_dataset_schema_columns_result example_validate)




section \<open>The combination law\<close>

text \<open>
  C1. When both frames load, both schema checks return and drift detection returns,
  \<open>initiate_data_validation\<close> returns an artifact whose \<open>validation_status\<close> is
  \<open>schema_train and schema_test and not dataset_drift\<close>, whatever the three booleans are.
\<close>

theorem validation_status_combination:
  assumes "snd (read_data E (trained_file_path (data_ingestion_artifact self))) = Inr train_df"
      and "snd (read_data E (test_file_path (data_ingestion_artifact self))) = Inr test_df"
      and "snd (validate_schema_columns self train_df) = Inr schema_train"
      and "snd (validate_schema_columns self test_df) = Inr schema_test"
      and "snd (detect_dataset_drift E self train_df test_df) = Inr dataset_drift"
  shows "\<exists>a. snd (initiate_data_validation E self) = Inr a
             \<and> validation_status a = (schema_train \<and> schema_test \<and> \<not> dataset_drift)"
proof -
  from assms(1)
  have "pd_read_csv E (trained_file_path (data_ingestion_artifact self)) = Inr train_df"
    by (simp add: read_data_result split: sum.splits)
  moreover from assms(2)
  have "pd_read_csv E (test_file_path (data_ingestion_artifact self)) = Inr test_df"
    by (simp add: read_data_result split: sum.splits)
  moreover from assms(3,4)
  have "snd (validate_dataset_schema_columns self train_df test_df)
          = Inr (schema_train, schema_test)"
    by (simp add: validate_dataset_schema_columns_result)
  ultimately show ?thesis
    using assms(5) by (simp add: initiate_data_validation_result)
qed

text \<open>The eight combinations, each on a run of the concrete inputs.\<close>

theorem validation_status_combination_witness:
  "map_sum id validation_status (snd (example_run True True False)) = Inr True
   \<and> map_sum id validation_status (snd (example_run True True True)) = Inr False
   \<and> map_sum id validation_status (snd (example_run True False False)) = Inr False
   \<and> map_sum id validation_status (snd (example_run True False True)) = Inr False
   \<and> map_sum id validation_status (snd (example_run False True False)) = Inr False
   \<and> map_sum id validation_status (snd (example_run False True True)) = Inr False
   \<and> map_sum id validation_status (snd (example_run False False False)) = Inr False
   \<and> map_sum id validation_status (snd (example_run False False True)) = Inr False"
proof -
  have train: "snd (read_data (example_env tr te outcome)
                 (trained_file_path (data_ingestion_artifact example_self))) = Inr tr"
    for tr te outcome
    by (simp add: read_data_result example_self_fields example_read_train)
  have test: "snd (read_data (example_env tr te outcome)
                 (test_file_path (data_ingestion_artifact example_self))) = Inr te"
    for tr te outcome
    by (simp add: read_data_result example_self_fields example_read_test)
  have "map_sum id validation_status (snd (example_run a b d)) = Inr (a \<and> b \<and> \<not> d)" for a b d
    using validation_status_combination
      [OF train [of "example_frame a" "example_frame b" "Inr (example_report d)"]
          test [of "example_frame a" "example_frame b" "Inr (example_report d)"]
          example_validate [of a] example_validate [of b]
          example_detect [of "example_frame a" "example_frame b" d]]
    by (auto simp add: example_run_def)
  then show ?thesis by simp
qed

section \<open>The schema check\<close>

text \<open>
  C2. When the schema configuration yields an expected column count \<open>n\<close>,
  \<open>validate_schema_columns\<close> returns, for every frame, whether the frame has exactly
  \<open>n\<close> columns; it does not raise, and for the frame with no column it returns whether
  \<open>n\<close> is 0.
\<close>

theorem schema_check_iff_column_count:
  assumes "expected_column_count self = Inr n"
  shows "snd (validate_schema_columns self D) = Inr (length (columns D) = n)
         \<and> snd (validate_schema_columns self []) = Inr (0 = n)"
  using assms by (simp add: validate_schema_columns_result columns_def)

theorem schema_check_iff_column_count_witness:
  "expected_column_count example_self = Inr 2
   \<and> snd (validate_schema_columns example_self (example_frame True)) = Inr True
   \<and> snd (validate_schema_columns example_self (example_frame False)) = Inr False
   \<and> snd (validate_schema_columns example_self []) = Inr False"
proof -
  have n: "expected_column_count example_self = Inr 2"
    by (simp add: example_self_def example_expected_column_count)
  show ?thesis
    using n schema_check_iff_column_count [OF n, of "example_frame True"]
      schema_check_iff_column_count [OF n, of "example_frame False"]
    by (simp add: example_frame_def columns_def)
qed

section \<open>The paths of the artifact\<close>

text \<open>
  C9. Every artifact \<open>initiate_data_validation\<close> returns carries the train and test
  paths of the ingestion artifact as its valid paths, and the invalid paths and the
  drift report path of the configuration, unchanged; nothing in this depends on
  \<open>validation_status\<close>.
\<close>

theorem artifact_paths_pass_through:
  assumes "snd (initiate_data_validation E self) = Inr a"
  shows "valid_train_file_path a = trained_file_path (data_ingestion_artifact self)
         \<and> valid_test_file_path a = test_file_path (data_ingestion_artifact self)
         \<and> invalid_train_file_path a = invalid_train_file_path_cfg (data_validation_config self)
         \<and> invalid_test_file_path a = invalid_test_file_path_cfg (data_validation_config self)
         \<and> drift_report_file_path a = drift_report_file_path_cfg (data_validation_config self)"
  using assms by (auto simp add: initiate_data_validation_result split: sum.splits)

text \<open>A run with status true and a run with status false.\<close>

theorem artifact_paths_pass_through_witness:
  "(\<exists>a. snd (example_run True True False) = Inr a \<and> validation_status a
        \<and> valid_train_file_path a = ''train.csv'' \<and> valid_test_file_path a = ''test.csv''
        \<and> invalid_train_file_path a = ''invalid/train.csv''
        \<and> invalid_test_file_path a = ''invalid/test.csv''
        \<and> drift_report_file_path a = ''report.yaml'')
   \<and> (\<exists>a. snd (example_run True False True) = Inr a \<and> \<not> validation_status a
        \<and> valid_train_file_path a = ''train.csv'' \<and> valid_test_file_path a = ''test.csv''
        \<and> invalid_train_file_path a = ''invalid/train.csv''
        \<and> invalid_test_file_path a = ''invalid/test.csv''
        \<and> drift_report_file_path a = ''report.yaml'')"
proof -
  have paths: "snd (example_run a b d) = Inr r \<Longrightarrow>
     valid_train_file_path r = ''train.csv'' \<and> valid_test_file_path r = ''test.csv''
        \<and> invalid_train_file_path r = ''invalid/train.csv''
        \<and> invalid_test_file_path r = ''invalid/test.csv''
        \<and> drift_report_file_path r = ''report.yaml''" for a b d r
    using artifact_paths_pass_through
      [of "example_env (example_frame a) (example_frame b) (Inr (example_report d))" example_self r]
    by (simp add: example_run_def example_self_fields)
  show ?thesis
    using paths [of True True False] paths [of True False True]
    by (simp add: example_run_result)
qed

section \<open>Failure of a run\<close>

text \<open>
  C6. A run of \<open>initiate_data_validation\<close> either returns an artifact or raises a
  \<open>CustomerException\<close>. If reading the train file raises \<open>e\<close>, or the train file is read
  and reading the test file raises \<open>e\<close>, the run raises the \<open>CustomerException\<close> that
  wraps the \<open>CustomerException\<close> \<open>read_data\<close> raised around \<open>e\<close>; no artifact is returned
  and no report has been written.
\<close>

theorem run_returns_artifact_or_raises:
  "((\<exists>a. snd (initiate_data_validation E self) = Inr a)
      \<or> (\<exists>c. snd (initiate_data_validation E self) = Inl (CustomerException c)))
   \<and> (pd_read_csv E (trained_file_path (data_ingestion_artifact self)) = Inl e \<longrightarrow>
        snd (initiate_data_validation E self) = Inl (CustomerException (CustomerException e))
        \<and> reports_written (fst (initiate_data_validation E self)) = [])
   \<and> (pd_read_csv E (trained_file_path (data_ingestion_artifact self)) = Inr train_df
        \<and> pd_read_csv E (test_file_path (data_ingestion_artifact self)) = Inl e \<longrightarrow>
        snd (initiate_data_validation E self) = Inl (CustomerException (CustomerException e))
        \<and> reports_written (fst (initiate_data_validation E self)) = [])"
  by (simp add: initiate_data_validation_result initiate_data_validation_reports split: sum.splits)

theorem run_returns_artifact_or_raises_witness:
  "snd (initiate_data_validation
          (example_env (example_frame True) (example_frame True) (Inr (example_report False)))
          (example_self_at ''missing.csv'' ''test.csv''))
     = Inl (CustomerException (CustomerException (Failure ''FileNotFoundError'')))
   \<and> snd (initiate_data_validation
          (example_env (example_frame True) (example_frame True) (Inr (example_report False)))
          (example_self_at ''train.csv'' ''missing.csv''))
     = Inl (CustomerException (CustomerException (Failure ''FileNotFoundError'')))"
proof -
  let ?E = "example_env (example_frame True) (example_frame True) (Inr (example_report False))"
  have a: "pd_read_csv ?E (trained_file_path (data_ingestion_artifact (example_self_at ''missing.csv'' ''test.csv'')))
             = Inl (Failure ''FileNotFoundError'')"
    by (simp add: example_self_at_def example_env_def)
  have b: "pd_read_csv ?E (trained_file_path (data_ingestion_artifact (example_self_at ''train.csv'' ''missing.csv'')))
             = Inr (example_frame True)
           \<and> pd_read_csv ?E (test_file_path (data_ingestion_artifact (example_self_at ''train.csv'' ''missing.csv'')))
             = Inl (Failure ''FileNotFoundError'')"
    by (simp add: example_self_at_def example_env_def)
  show ?thesis
    using a b
      run_returns_artifact_or_raises [of ?E "example_self_at ''missing.csv'' ''test.csv''"
        "Failure ''FileNotFoundError''" "example_frame True"]
      run_returns_artifact_or_raises [of ?E "example_self_at ''train.csv'' ''missing.csv''"
        "Failure ''FileNotFoundError''" "example_frame True"]
    by blast
qed

section \<open>Reports without a summary entry\<close>



section \<open>Frames with no common column\<close>




section \<open>Where the report is persisted\<close>

text \<open>
  C5, as the specification states it, fails: a call of \<open>detect_dataset_drift\<close> hands
  the report to the YAML writer at the configured path.
\<close>

theorem drift_detection_writes_counterexample:
  "reports_written (fst (detect_dataset_drift
      (example_env (example_frame True) (example_frame True) (Inr (example_report False)))
      example_self (example_frame True) (example_frame True)))
     = [(''report.yaml'', example_report False)]
   \<and> reports_written (fst (detect_dataset_drift
      (example_env (example_frame True) (example_frame True) (Inr (example_report False)))
      example_self (example_frame True) (example_frame True))) \<noteq> []"
  by (simp add: detect_dataset_drift_reports example_env_def example_self_fields)

text \<open>
  C5, amended. Whenever the report library returns a report and \<open>dump_dict()\<close> yields
  its dictionary, \<open>detect_dataset_drift\<close> itself hands that dictionary, once, to the
  YAML writer at the configured drift report path; and the writes of a run of
  \<open>initiate_data_validation\<close> in which both frames load are exactly the writes of its
  call of \<open>detect_dataset_drift\<close>.
\<close>

theorem report_persisted_inside_drift_detection:
  "(report_run E current_df reference_df = Inr evaluation \<and> dump_dict evaluation = Inr report_dict \<longrightarrow>
      reports_written (fst (detect_dataset_drift E self reference_df current_df))
        = [(drift_report_file_path_cfg (data_validation_config self), report_dict)])
   \<and> (pd_read_csv E (trained_file_path (data_ingestion_artifact self)) = Inr train_df
      \<and> pd_read_csv E (test_file_path (data_ingestion_artifact self)) = Inr test_df \<longrightarrow>
      reports_written (fst (initiate_data_validation E self))
        = reports_written (fst (detect_dataset_drift E self train_df test_df)))"
  by (simp add: detect_dataset_drift_reports initiate_data_validation_reports)

theorem report_persisted_inside_drift_detection_witness:
  "reports_written (fst (example_run True True False)) = [(''report.yaml'', example_report False)]"
proof -
  let ?E = "example_env (example_frame True) (example_frame True) (Inr (example_report False))"
  have 1: "report_run ?E (example_frame True) (example_frame True)
             = Inr (Snapshot (Inr (example_report False)))
           \<and> dump_dict (Snapshot (Inr (example_report False))) = Inr (example_report False)"
    by (simp add: example_env_def)
  have 2: "pd_read_csv ?E (trained_file_path (data_ingestion_artifact example_self))
             = Inr (example_frame True)
           \<and> pd_read_csv ?E (test_file_path (data_ingestion_artifact example_self))
             = Inr (example_frame True)"
    by (simp add: example_self_fields example_read_train example_read_test)
  show ?thesis
    using 1 2
      report_persisted_inside_drift_detection [of ?E "example_frame True" "example_frame True"
        "Snapshot (Inr (example_report False))" "example_report False" example_self
        "example_frame True" "example_frame True"]
    by (simp add: example_run_def example_self_fields)
qed

section \<open>Two runs on the same frames\<close>



section \<open>The order of the phases\<close>




end
